theory Spec2Isabelle
  imports Main "HOL-Library.Sublist"
begin

section \<open>Python values used by app.py\<close>

text \<open>
  A Python \<open>str\<close> is a sequence of Unicode code points; a code point is a natural number.
  \<open>str\<close> turns an ASCII literal into such a sequence. \<open>bytes\<close> objects (bcrypt hashes and
  salts, the contents of the PDF file) are sequences of byte values.
\<close>

type_synonym pystr = "nat list"
type_synonym bytes = "nat list"

definition str :: "string \<Rightarrow> pystr" where
  "str s = map of_char s"

text \<open>The code points for which \<open>str.isspace\<close> holds; \<open>str.split()\<close> splits at runs of them.\<close>

definition isspace :: "nat \<Rightarrow> bool" where
  "isspace c = ((9 \<le> c \<and> c \<le> 13) \<or> (28 \<le> c \<and> c \<le> 32) \<or> c = 133 \<or> c = 160
     \<or> c = 5760 \<or> (8192 \<le> c \<and> c \<le> 8202) \<or> c = 8232 \<or> c = 8233 \<or> c = 8239
     \<or> c = 8287 \<or> c = 12288)"

text \<open>\<open>s.split()\<close>: the maximal runs of non-whitespace code points, left to right.
  \<open>py_split_from cur s\<close> carries the word read so far.\<close>

fun py_split_from :: "pystr \<Rightarrow> pystr \<Rightarrow> pystr list" where
  "py_split_from cur [] = (if cur = [] then [] else [cur])"
| "py_split_from cur (c # cs) =
     (if isspace c then (if cur = [] then py_split_from [] cs else cur # py_split_from [] cs)
      else py_split_from (cur @ [c]) cs)"

definition py_split :: "pystr \<Rightarrow> pystr list" where
  "py_split s = py_split_from [] s"

text \<open>\<open>sep.join(xs)\<close>.\<close>

fun py_join :: "pystr \<Rightarrow> pystr list \<Rightarrow> pystr" where
  "py_join sep [] = []"
| "py_join sep [x] = x"
| "py_join sep (x # y # ys) = x @ sep @ py_join sep (y # ys)"

text \<open>\<open>xs[:n]\<close> for an integer \<open>n\<close>: a negative \<open>n\<close> counts from the end.\<close>

definition py_slice_to :: "'a list \<Rightarrow> int \<Rightarrow> 'a list" where
  "py_slice_to xs n = (if 0 \<le> n then take (nat n) xs else take (length xs - nat (- n)) xs)"

text \<open>\<open>sub in s\<close> for strings: \<open>sub\<close> occurs in \<open>s\<close> as a contiguous substring.\<close>

fun py_in :: "pystr \<Rightarrow> pystr \<Rightarrow> bool" where
  "py_in sub [] = (sub = [])"
| "py_in sub (c # cs) = (prefix sub (c # cs) \<or> py_in sub cs)"

text \<open>\<open>s.split(sep)\<close> for a non-empty separator: the pieces between the non-overlapping
  occurrences of \<open>sep\<close>, found left to right. app.py only calls it with the constant
  separators \<open>"v="\<close>, \<open>"&"\<close>, \<open>"youtu.be/"\<close> and \<open>"\n"\<close>; Python raises ValueError for an empty
  separator, a case this function does not reach (it then returns the string whole).\<close>

fun py_split_sep_from :: "pystr \<Rightarrow> pystr \<Rightarrow> pystr \<Rightarrow> pystr list" where
  "py_split_sep_from sep cur [] = [cur]"
| "py_split_sep_from sep cur (c # cs) =
     (if sep \<noteq> [] \<and> prefix sep (c # cs)
      then cur # py_split_sep_from sep [] (drop (length sep) (c # cs))
      else py_split_sep_from sep (cur @ [c]) cs)"

definition py_split_sep :: "pystr \<Rightarrow> pystr \<Rightarrow> pystr list" where
  "py_split_sep sep s = py_split_sep_from sep [] s"

text \<open>Exceptions that escape a script run, and \<open>xs[i]\<close> for a constant index \<open>i \<ge> 0\<close>.\<close>

datatype py_error = IndexError | TypeError | FileNotFoundError | AttributeError | ValueError

definition py_index :: "'a list \<Rightarrow> nat \<Rightarrow> py_error + 'a" where
  "py_index xs i = (if i < length xs then Inr (xs ! i) else Inl IndexError)"

text \<open>\<open>str(n)\<close> for an integer, and the rendering of an optional integer in an f-string.\<close>

fun digits :: "nat \<Rightarrow> pystr" where
  "digits n = (if n < 10 then [48 + n] else digits (n div 10) @ [48 + n mod 10])"

definition str_of_int :: "int \<Rightarrow> pystr" where
  "str_of_int i = (if i < 0 then 45 # digits (nat (- i)) else digits (nat i))"

definition format_int_option :: "int option \<Rightarrow> pystr" where
  "format_int_option n = (case n of None \<Rightarrow> str ''None'' | Some i \<Rightarrow> str_of_int i)"


section \<open>Data model\<close>

text \<open>Documents of the two MongoDB collections. A \<open>datetime\<close> is kept as its rendering.\<close>

record user_doc =
  email :: pystr
  password :: bytes

record content_doc =
  doc_email :: pystr
  doc_video_id :: pystr
  doc_content_type :: pystr
  doc_content :: pystr
  doc_language :: "pystr option"
  doc_timestamp :: pystr

text \<open>One transcript segment as returned by \<open>transcript.fetch()\<close>; only \<open>entry['text']\<close> is read.\<close>

record entry =
  entry_text :: pystr

text \<open>Drawing operations collected by the reportlab canvas before \<open>c.save()\<close>.\<close>

datatype pdf_op = SetFont pystr nat | DrawString int int pystr

text \<open>Exceptions of the transcript service, each with its message \<open>str(e)\<close>.\<close>

datatype yt_exception = NoTranscriptFound pystr | VideoUnavailable pystr | OtherException pystr

text \<open>
  What a script run does to the outside: the Streamlit calls that display something, the
  input widgets it renders (by label), what it prints on the server's standard output,
  and its calls to the external services.
\<close>

datatype event =
    StTitle pystr
  | StError pystr
  | StSuccess pystr
  | StInfo pystr
  | StWrite pystr
  | StSubheader pystr
  | StSidebarSubheader pystr
  | StImage pystr
  | StMarkdown pystr
  | StDownloadButton bytes
  | StWidget pystr
  | Print pystr
  | CallListTranscripts pystr pystr
  | CallGenerate pystr
  | CallTranslate pystr pystr
  | CallInsertContent content_doc

text \<open>
  The external services as seen by one script run. An exception is the \<open>Inl\<close> case and
  carries its message. \<open>yt_transcript video_id language\<close> stands for
  \<open>list_transcripts(video_id).find_transcript([language]).fetch()\<close>; \<open>gemini input\<close> for
  \<open>GenerativeModel("gemini-pro").generate_content(input).text\<close>; \<open>translator content target\<close>
  for \<open>GoogleTranslator(source='auto', target=target).translate(content)\<close>; \<open>hashpw\<close> and
  \<open>checkpw\<close> for the bcrypt functions applied to the UTF-8 encoding of the password, which
  raise for arguments they refuse (\<open>checkpw\<close> for a stored value that is no bcrypt hash,
  both for a password of more than 72 bytes in recent releases of the library);
  \<open>canvas_save\<close> for rendering the drawing operations into the file, where a failure may
  leave a partial file behind. The MongoDB connection is taken as established: the two
  collections exist and their queries answer.
\<close>

record env =
  yt_transcript :: "pystr \<Rightarrow> pystr \<Rightarrow> yt_exception + entry list"
  gemini :: "pystr \<Rightarrow> pystr + pystr"
  translator :: "pystr \<Rightarrow> pystr \<Rightarrow> pystr + pystr"
  hashpw :: "pystr \<Rightarrow> bytes \<Rightarrow> py_error + bytes"
  checkpw :: "pystr \<Rightarrow> bytes \<Rightarrow> py_error + bool"
  gensalt :: bytes
  canvas_save :: "pdf_op list \<Rightarrow> (pystr \<times> bytes option) + bytes"
  content_insert_error :: "pystr option"
  utcnow :: pystr
  ADMIN_EMAIL :: "pystr option"
  ADMIN_PASSWORD :: "pystr option"

text \<open>
  \<open>st.session_state\<close>: for each key the outer \<open>option\<close> says whether the key is present,
  the inner one (where there is one) is Python's \<open>None\<close>.
\<close>

record session =
  logged_in :: "bool option"
  is_admin_logged_in :: "bool option"
  user_email :: "pystr option option"
  generated_content :: "pystr option option"
  translated_content :: "pystr option option"
  pdf_generated :: "bool option"

text \<open>The state a script run works on, and the events it has produced so far.\<close>

record run =
  session_state :: session
  users_collection :: "user_doc list"
  content_collection :: "content_doc list"
  files :: "pystr \<rightharpoonup> bytes"
  out :: "event list"

text \<open>
  The widget values of one script run. Streamlit reruns the script after each interaction,
  and \<open>st.button\<close> returns True only in the run that its click started: at most one button
  is pressed in a run. The radio and select boxes return one of their fixed options.
\<close>

datatype button = LoginButton | SignUpButton | LoginAsAdminButton | LogoutAdminButton
  | GenerateContentButton | TranslateContentButton

datatype nav_option = Login | SignUp | AdminLogin

datatype kind = Summary | Notes | Flashcards

datatype translation_target = Hindi | Spanish | French | German | Italian

record inputs =
  clicked :: "button option"
  nav_choice :: nav_option
  email_input :: pystr
  password_input :: pystr
  admin_email_input :: pystr
  admin_password_input :: pystr
  youtube_link_input :: pystr
  content_type_input :: kind
  desired_word_count_input :: int
  translation_language_input :: translation_target

fun kind_label :: "kind \<Rightarrow> pystr" where
  "kind_label Summary = str ''Summary''"
| "kind_label Notes = str ''Notes''"
| "kind_label Flashcards = str ''Flashcards''"

fun target_label :: "translation_target \<Rightarrow> pystr" where
  "target_label Hindi = str ''Hindi''"
| "target_label Spanish = str ''Spanish''"
| "target_label French = str ''French''"
| "target_label German = str ''German''"
| "target_label Italian = str ''Italian''"

text \<open>How a script run ends: at its last statement, at \<open>st.rerun()\<close>, or at an exception
  that nothing catches.\<close>

datatype outcome = Completed | Rerun | Uncaught py_error

definition emit :: "event list \<Rightarrow> run \<Rightarrow> run" where
  "emit es r = r\<lparr>out := out r @ es\<rparr>"


section \<open>generate\_content (lines 57 to 89)\<close>

definition indent :: pystr where
  "indent = replicate 12 32"

definition summary_prompt :: "int option \<Rightarrow> pystr" where
  "summary_prompt desired_word_count =
     [10] @ indent
     @ str ''You are a YouTube video summarizer. Take the transcript provided and summarize it to highlight the important points in approximately ''
     @ format_int_option desired_word_count @ str '' words.'' @ [10] @ indent
     @ str ''Ensure the summary is concise, focused, and within the word limit of ''
     @ format_int_option desired_word_count
     @ str '' words. Provide the summary in English.'' @ [10] @ indent"

definition notes_prompt :: pystr where
  "notes_prompt =
     [10] @ indent
     @ str ''You are a YouTube video note-taker. Take the transcript provided and generate important notes that summarize the key points in a bulleted format.''
     @ [10] @ indent
     @ str ''Ensure the notes are concise and focused on the most important aspects. Provide the notes in English.''
     @ [10] @ indent"

definition flashcards_prompt :: pystr where
  "flashcards_prompt =
     [10] @ indent
     @ str ''You are a YouTube video flashcard generator. Take the transcript provided and generate a list of key concepts and questions for studying in flashcard format.''
     @ [10] @ indent
     @ str ''Ensure the flashcards are clear, relevant, and easy to understand. Provide the flashcards in English.''
     @ [10] @ indent"

text \<open>
  The result is the returned value (\<open>None\<close> after a caught exception) and the events of the
  call. Building the \<open>GenerativeModel\<close> object contacts nothing; the backend is invoked by
  \<open>model.generate_content\<close>, recorded as \<open>CallGenerate\<close>. The test of line 81 is false when
  \<open>desired_word_count\<close> is \<open>None\<close> or \<open>0\<close>.
\<close>

definition generate_content ::
  "env \<Rightarrow> pystr \<Rightarrow> pystr \<Rightarrow> int option \<Rightarrow> pystr option \<times> event list" where
  "generate_content env content_type transcript_text desired_word_count =
     (case (if content_type = str ''Summary'' then Some (summary_prompt desired_word_count)
            else if content_type = str ''Notes'' then Some notes_prompt
            else if content_type = str ''Flashcards'' then Some flashcards_prompt
            else None) of
        None \<Rightarrow> (Some (str ''Invalid content type selected.''), [])
      | Some prompt \<Rightarrow>
          (case gemini env (prompt @ transcript_text) of
             Inl e \<Rightarrow>
               (None, [CallGenerate (prompt @ transcript_text),
                       StError (str ''Failed to generate content: '' @ e)])
           | Inr content \<Rightarrow>
               (Some (case desired_word_count of
                        None \<Rightarrow> content
                      | Some n \<Rightarrow>
                          if content_type = str ''Summary'' \<and> n \<noteq> 0
                          then (let words = py_split content in
                                if int (length words) > n
                                then py_join (str '' '') (py_slice_to words n) @ str ''...''
                                else content)
                          else content),
                [CallGenerate (prompt @ transcript_text)])))"


section \<open>fetch\_transcript (lines 43 to 54) and translate\_content (lines 92 to 101)\<close>

definition fetch_transcript :: "env \<Rightarrow> pystr \<Rightarrow> pystr \<Rightarrow> pystr option \<times> event list" where
  "fetch_transcript env video_id language =
     (case yt_transcript env video_id language of
        Inr entries \<Rightarrow>
          (Some (py_join (str '' '') (map entry_text entries)),
           [CallListTranscripts video_id language])
      | Inl (NoTranscriptFound m) \<Rightarrow>
          (None, [CallListTranscripts video_id language,
                  StError (str ''Transcript not available for this video.'')])
      | Inl (VideoUnavailable m) \<Rightarrow>
          (None, [CallListTranscripts video_id language,
                  StError (str ''The video is unavailable. Please try another link.'')])
      | Inl (OtherException m) \<Rightarrow>
          (None, [CallListTranscripts video_id language,
                  StError (str ''An unexpected error occurred: '' @ m)]))"

definition translate_content :: "env \<Rightarrow> pystr \<Rightarrow> pystr \<Rightarrow> pystr option \<times> event list" where
  "translate_content env content target_language =
     (case translator env content target_language of
        Inr translated \<Rightarrow> (Some translated, [CallTranslate content target_language])
      | Inl e \<Rightarrow>
          (None, [CallTranslate content target_language,
                  StError (str ''Failed to translate content: '' @ e)]))"


section \<open>save\_to\_mongodb (lines 104 to 117)\<close>

definition save_to_mongodb ::
  "env \<Rightarrow> pystr \<Rightarrow> pystr \<Rightarrow> pystr \<Rightarrow> pystr \<Rightarrow> pystr option \<Rightarrow> run \<Rightarrow> run" where
  "save_to_mongodb env email' video_id content_type content language r =
     (let content_data = \<lparr>doc_email = email', doc_video_id = video_id,
            doc_content_type = content_type, doc_content = content,
            doc_language = language, doc_timestamp = utcnow env\<rparr>
      in case content_insert_error env of
           None \<Rightarrow>
             emit [CallInsertContent content_data,
                   StSuccess (str ''Content saved permanently to MongoDB.'')]
               (r\<lparr>content_collection := content_collection r @ [content_data]\<rparr>)
         | Some e \<Rightarrow>
             emit [CallInsertContent content_data,
                   StError (str ''Failed to save content to MongoDB: '' @ e)] r)"


section \<open>login\_page (lines 120 to 131) and signup\_page (lines 134 to 150)\<close>

text \<open>\<open>users_collection.find_one({"email": email})\<close>: the first document with that email.
  In line 126 \<open>bcrypt.checkpw\<close> is called only when a document was found (\<open>and\<close> stops at a
  false left operand), and nothing catches its exception: it ends the run.\<close>

definition find_one :: "user_doc list \<Rightarrow> pystr \<Rightarrow> user_doc option" where
  "find_one users e = find (\<lambda>u. email u = e) users"

definition login_page :: "env \<Rightarrow> inputs \<Rightarrow> run \<Rightarrow> outcome \<times> run" where
  "login_page env inp r0 =
     (let r1 = emit [StTitle (str ''Login''), StWidget (str ''Email''),
                     StWidget (str ''Password''), StWidget (str ''Login'')] r0
      in if clicked inp = Some LoginButton
         then (case find_one (users_collection r1) (email_input inp) of
                 None \<Rightarrow> (Completed, emit [StError (str ''Invalid email or password.'')] r1)
               | Some user \<Rightarrow>
                   (case checkpw env (password_input inp) (password user) of
                      Inl e \<Rightarrow> (Uncaught e, r1)
                    | Inr matches \<Rightarrow>
                        if matches
                        then (Completed,
                              emit [StSuccess (str ''Login successful!'')]
                                (r1\<lparr>session_state := (session_state r1)
                                      \<lparr>logged_in := Some True,
                                       user_email := Some (Some (email_input inp))\<rparr>\<rparr>))
                        else (Completed,
                              emit [StError (str ''Invalid email or password.'')] r1)))
         else (Completed, r1))"

text \<open>Lines 144 and 145 set the two session fields, lines 147 and 148 set them again;
  \<open>st.rerun()\<close> ends the run. Nothing catches an exception of \<open>bcrypt.hashpw\<close>: it ends
  the run before \<open>insert_one\<close>.\<close>

definition signup_page :: "env \<Rightarrow> inputs \<Rightarrow> run \<Rightarrow> outcome \<times> run" where
  "signup_page env inp r0 =
     (let r1 = emit [StTitle (str ''Sign Up''), StWidget (str ''Email''),
                     StWidget (str ''Password''), StWidget (str ''Sign Up'')] r0
      in if clicked inp = Some SignUpButton
         then (case find_one (users_collection r1) (email_input inp) of
                 Some user \<Rightarrow> (Completed, emit [StError (str ''User already exists.'')] r1)
               | None \<Rightarrow>
                   (case hashpw env (password_input inp) (gensalt env) of
                      Inl e \<Rightarrow> (Uncaught e, r1)
                    | Inr hashed_password \<Rightarrow>
                        (let r2 = r1\<lparr>users_collection := users_collection r1
                                  @ [\<lparr>email = email_input inp,
                                      password = hashed_password\<rparr>]\<rparr>;
                             r3 = r2\<lparr>session_state := (session_state r2)
                                  \<lparr>logged_in := Some True,
                                   user_email := Some (Some (email_input inp))\<rparr>\<rparr>;
                             r4 = r3\<lparr>session_state := (session_state r3)
                                  \<lparr>logged_in := Some False, user_email := Some None\<rparr>\<rparr>
                         in (Rerun,
                             emit [StSuccess
                                     (str ''Registration successful! You can now log in.'')]
                               r4))))
         else (Completed, r1))"


section \<open>generate\_pdf (lines 153 to 177)\<close>

fun draw_lines :: "pystr list \<Rightarrow> int \<Rightarrow> pdf_op list" where
  "draw_lines [] y = []"
| "draw_lines (line # lines) y = DrawString 50 y line # draw_lines lines (y - 20)"

definition pdf_output :: pystr where
  "pdf_output = str ''/tmp/generated_content_reportlab.pdf''"

text \<open>Any exception of the canvas is caught: its message is printed with \<open>print\<close>, on the
  server's standard output, and \<open>None\<close> is returned.\<close>

definition generate_pdf :: "env \<Rightarrow> pystr \<Rightarrow> pystr \<Rightarrow> run \<Rightarrow> pystr option \<times> run" where
  "generate_pdf env content content_type r =
     (let lines = py_split_sep [10] content;
          ops = [SetFont (str ''Helvetica'') 16,
                 DrawString 100 750 (content_type @ str '' Content''),
                 SetFont (str ''Helvetica'') 12] @ draw_lines lines 700
      in case canvas_save env ops of
           Inr data \<Rightarrow> (Some pdf_output, r\<lparr>files := (files r)(pdf_output \<mapsto> data)\<rparr>)
         | Inl (e, partial) \<Rightarrow>
             (None,
              emit [Print (str ''Error generating PDF: '' @ e)]
                (case partial of
                   None \<Rightarrow> r
                 | Some data \<Rightarrow> r\<lparr>files := (files r)(pdf_output \<mapsto> data)\<rparr>)))"


section \<open>admin\_panel (lines 180 to 203)\<close>

definition admin_panel :: "env \<Rightarrow> inputs \<Rightarrow> run \<Rightarrow> run" where
  "admin_panel env inp r0 =
     (let r1 = emit [StTitle (str ''Admin Panel''), StSidebarSubheader (str ''Admin Actions''),
                     StWidget (str ''Logout Admin'')] r0;
          r2 = (if clicked inp = Some LogoutAdminButton
                then emit [StSuccess (str ''Admin has been logged out.'')]
                       (r1\<lparr>session_state := (session_state r1)
                             \<lparr>is_admin_logged_in := Some False\<rparr>\<rparr>)
                else r1);
          r3 = emit [StSubheader (str ''User Management'')] r2;
          users = users_collection r3;
          r4 = (if users \<noteq> []
                then emit (StWrite (str ''**Registered Users:**'')
                           # map (\<lambda>user. StWrite (str ''- '' @ email user)) users) r3
                else emit [StInfo (str ''No users found.'')] r3);
          r5 = emit [StSubheader (str ''Generated Content Management'')] r4;
          contents = content_collection r5
      in if contents \<noteq> []
         then emit (map (\<lambda>content. StWrite (str ''User: '' @ doc_email content
                           @ str '', Type: '' @ doc_content_type content
                           @ str '', Timestamp: '' @ doc_timestamp content)) contents) r5
         else emit [StInfo (str ''No content generated yet.'')] r5)"


section \<open>main\_app (lines 206 to 264)\<close>

text \<open>The conditional expression of line 213, evaluated when one of the two markers occurs
  in the link.\<close>

definition extract_video_id :: "pystr \<Rightarrow> py_error + pystr" where
  "extract_video_id youtube_link =
     (if py_in (str ''v='') youtube_link
      then (case py_index (py_split_sep (str ''v='') youtube_link) 1 of
              Inl e \<Rightarrow> Inl e
            | Inr rest \<Rightarrow> py_index (py_split_sep (str ''&'') rest) 0)
      else py_index (py_split_sep (str ''youtu.be/'') youtube_link) 1)"

text \<open>Lines 207 to 216: the link field and the video identifier (\<open>None\<close> when there is none).\<close>

definition main_app_link :: "inputs \<Rightarrow> run \<Rightarrow> (py_error + pystr option) \<times> run" where
  "main_app_link inp r0 =
     (let r1 = emit [StTitle (str ''YouTube Transcript Summarizer''),
                     StWidget (str ''Enter YouTube Video Link:'')] r0;
          youtube_link = youtube_link_input inp
      in if youtube_link \<noteq> []
         then (if py_in (str ''v='') youtube_link \<or> py_in (str ''youtu.be/'') youtube_link
               then (case extract_video_id youtube_link of
                       Inl e \<Rightarrow> (Inl e, r1)
                     | Inr video_id \<Rightarrow>
                         (Inr (Some video_id),
                          emit [StImage (str ''http://img.youtube.com/vi/'' @ video_id
                                         @ str ''/0.jpg'')] r1))
               else (Inr None, emit [StError (str ''Please enter a valid YouTube link.'')] r1))
         else (Inr None, r1))"

text \<open>Lines 218 to 228: the kind selection, the slider (for Summary only) and the default
  values of the three session keys.\<close>

definition main_app_defaults :: "inputs \<Rightarrow> run \<Rightarrow> run" where
  "main_app_defaults inp r0 =
     (let r1 = emit [StWidget (str ''Select the type of content to generate:'')] r0;
          r2 = (if kind_label (content_type_input inp) = str ''Summary''
                then emit [StWidget (str ''Select the word count for the summary:'')] r1
                else r1);
          s = session_state r2;
          s1 = (if generated_content s = None then s\<lparr>generated_content := Some None\<rparr> else s);
          s2 = (if translated_content s1 = None then s1\<lparr>translated_content := Some None\<rparr>
                else s1);
          s3 = (if pdf_generated s2 = None then s2\<lparr>pdf_generated := Some False\<rparr> else s2)
      in r2\<lparr>session_state := s3\<rparr>)"

text \<open>Lines 230 to 239: the transcript is fetched in every run that has a video identifier;
  the button is rendered only when the transcript is non-empty.\<close>

definition main_app_generate :: "env \<Rightarrow> inputs \<Rightarrow> pystr option \<Rightarrow> run \<Rightarrow> run" where
  "main_app_generate env inp video_id r0 =
     (case video_id of
        None \<Rightarrow> r0
      | Some vid \<Rightarrow>
          if vid = [] then r0
          else (let (transcript_text, es) = fetch_transcript env vid (str ''en'');
                    r1 = emit es r0
                in case transcript_text of
                     None \<Rightarrow> r1
                   | Some transcript \<Rightarrow>
                       if transcript = [] then r1
                       else (let r2 = emit [StWidget (str ''Generate Content'')] r1
                             in if clicked inp = Some GenerateContentButton
                                then (let content_type = kind_label (content_type_input inp);
                                          (content, es') =
                                            (if content_type = str ''Summary''
                                             then generate_content env content_type transcript
                                                    (Some (desired_word_count_input inp))
                                             else generate_content env content_type transcript
                                                    None);
                                          r3 = emit es' r2
                                      in r3\<lparr>session_state := (session_state r3)
                                             \<lparr>generated_content := Some content,
                                              translated_content := Some None,
                                              pdf_generated := Some False\<rparr>\<rparr>)
                                else r2)))"

definition content_block :: "pystr \<Rightarrow> pystr \<Rightarrow> pystr \<Rightarrow> pystr" where
  "content_block content_type tag body =
     str ''<div style='padding: 10px; border: 1px solid #ccc; border-radius: 5px; background-color: #000000;'>''
     @ str ''<h3>'' @ content_type @ str '' ('' @ tag @ str ''):</h3>''
     @ str ''<p>'' @ body @ str ''</p></div>''"

text \<open>Lines 241 to 259: the content is displayed, the PDF is produced in every run that
  has content, and \<open>open(pdf_path, "rb")\<close> follows without a test of \<open>pdf_path\<close>:
  \<open>open(None, "rb")\<close> raises TypeError, a missing file FileNotFoundError. Reading a session
  key that is absent raises AttributeError (\<open>main_app_defaults\<close> has set the keys before).\<close>

definition main_app_display :: "env \<Rightarrow> inputs \<Rightarrow> run \<Rightarrow> outcome \<times> run" where
  "main_app_display env inp r0 =
     (case generated_content (session_state r0) of
        None \<Rightarrow> (Uncaught AttributeError, r0)
      | Some None \<Rightarrow> (Completed, r0)
      | Some (Some content) \<Rightarrow>
          if content = [] then (Completed, r0)
          else (let content_type = kind_label (content_type_input inp);
                    r1 = emit [StMarkdown (content_block content_type (str ''English'')
                                 content)] r0;
                    (pdf_path, r2) = generate_pdf env content content_type r1
                in case pdf_path of
                     None \<Rightarrow> (Uncaught TypeError, r2)
                   | Some path \<Rightarrow>
                       (case files r2 path of
                          None \<Rightarrow> (Uncaught FileNotFoundError, r2)
                        | Some pdf_file \<Rightarrow>
                            (let r3 = emit [StDownloadButton pdf_file,
                                            StWidget (str ''Translate Content''),
                                            StWidget (str ''Select Translation Language:''),
                                            StWidget (str ''Translate Content'')] r2
                             in if clicked inp = Some TranslateContentButton
                                then (let (translated, es) =
                                            translate_content env content
                                              (target_label (translation_language_input inp));
                                          r4 = emit es r3
                                      in (Completed,
                                          r4\<lparr>session_state := (session_state r4)
                                               \<lparr>translated_content := Some translated\<rparr>\<rparr>))
                                else (Completed, r3)))))"

text \<open>Lines 261 to 264.\<close>

definition main_app_translated :: "inputs \<Rightarrow> run \<Rightarrow> outcome \<times> run" where
  "main_app_translated inp r0 =
     (case translated_content (session_state r0) of
        None \<Rightarrow> (Uncaught AttributeError, r0)
      | Some None \<Rightarrow> (Completed, r0)
      | Some (Some translated) \<Rightarrow>
          if translated = [] then (Completed, r0)
          else (Completed,
                emit [StMarkdown (content_block (kind_label (content_type_input inp))
                        (str ''Translated'') translated)] r0))"

definition main_app :: "env \<Rightarrow> inputs \<Rightarrow> run \<Rightarrow> outcome \<times> run" where
  "main_app env inp r0 =
     (case main_app_link inp r0 of
        (Inl e, r1) \<Rightarrow> (Uncaught e, r1)
      | (Inr video_id, r1) \<Rightarrow>
          (let r2 = main_app_defaults inp r1;
               r3 = main_app_generate env inp video_id r2
           in case main_app_display env inp r3 of
                (Completed, r4) \<Rightarrow> main_app_translated inp r4
              | (stopped, r4) \<Rightarrow> (stopped, r4)))"


section \<open>The script's entry point (lines 267 to 294)\<close>

definition admin_login :: "env \<Rightarrow> inputs \<Rightarrow> run \<Rightarrow> run" where
  "admin_login env inp r0 =
     (let r1 = emit [StTitle (str ''Admin Login''), StWidget (str ''Admin Email''),
                     StWidget (str ''Admin Password''), StWidget (str ''Login as Admin'')] r0
      in if clicked inp = Some LoginAsAdminButton
         then (if Some (admin_email_input inp) = ADMIN_EMAIL env
                  \<and> Some (admin_password_input inp) = ADMIN_PASSWORD env
               then emit [StSuccess (str ''Admin login successful!'')]
                      (r1\<lparr>session_state := (session_state r1)
                            \<lparr>is_admin_logged_in := Some True\<rparr>\<rparr>)
               else emit [StError (str ''Invalid admin credentials.'')] r1)
         else r1)"

text \<open>Lines 279 to 294: the screen shown while nobody is logged in.\<close>

definition unauthenticated :: "env \<Rightarrow> inputs \<Rightarrow> run \<Rightarrow> outcome \<times> run" where
  "unauthenticated env inp r0 =
     (let r1 = emit [StWidget (str ''Choose an option:'')] r0
      in case nav_choice inp of
           Login \<Rightarrow> login_page env inp r1
         | SignUp \<Rightarrow> signup_page env inp r1
         | AdminLogin \<Rightarrow> (Completed, admin_login env inp r1))"

text \<open>Lines 268 to 272: a run starts from the session state, the collections and the
  files that the previous run left, with no event yet, and gives the two login flags
  their default value when they are absent.\<close>

definition script_start :: "run \<Rightarrow> run" where
  "script_start r =
     (let s = session_state r;
          s1 = (if logged_in s = None then s\<lparr>logged_in := Some False\<rparr> else s);
          s2 = (if is_admin_logged_in s1 = None then s1\<lparr>is_admin_logged_in := Some False\<rparr>
                else s1)
      in r\<lparr>session_state := s2, out := []\<rparr>)"

text \<open>One run of the script.\<close>

definition script :: "env \<Rightarrow> inputs \<Rightarrow> run \<Rightarrow> outcome \<times> run" where
  "script env inp r =
     (let r1 = script_start r
      in if logged_in (session_state r1) = Some True then main_app env inp r1
         else if is_admin_logged_in (session_state r1) = Some True
         then (Completed, admin_panel env inp r1)
         else unauthenticated env inp r1)"

text \<open>A sequence of script runs, each with its own environment and widget values. A run
  that stops early (\<open>st.rerun()\<close> or an exception) leaves the state it has reached.\<close>

fun runs :: "(env \<times> inputs) list \<Rightarrow> run \<Rightarrow> run" where
  "runs [] r = r"
| "runs ((env, inp) # rest) r = runs rest (snd (script env inp r))"

text \<open>What one interaction of the user leads to. \<open>st.rerun()\<close> makes Streamlit run the
  script again at once with the widgets as they are: the sidebar radio keeps its option,
  the text fields keep their text, and no button is pressed in that run.\<close>

definition interaction :: "env \<Rightarrow> inputs \<Rightarrow> run \<Rightarrow> outcome \<times> run" where
  "interaction env inp r =
     (case script env inp r of
        (Rerun, r1) \<Rightarrow> script env (inp\<lparr>clicked := None\<rparr>) r1
      | (Completed, r1) \<Rightarrow> (Completed, r1)
      | (Uncaught e, r1) \<Rightarrow> (Uncaught e, r1))"


section \<open>Predicates and event lists used in the statements\<close>

text \<open>A word: a non-empty string without whitespace.\<close>

definition is_word :: "pystr \<Rightarrow> bool" where
  "is_word w = (w \<noteq> [] \<and> list_all (\<lambda>c. \<not> isspace c) w)"

text \<open>The events that are a write to the generated-content collection, and those that are
  a call of the transcript service.\<close>

fun is_content_insert :: "event \<Rightarrow> bool" where
  "is_content_insert (CallInsertContent d) = True"
| "is_content_insert e = False"

fun is_fetch_call :: "event \<Rightarrow> bool" where
  "is_fetch_call (CallListTranscripts video_id language) = True"
| "is_fetch_call e = False"

text \<open>The widgets of the login page, what a failed login displays, what a rejected
  sign-up displays, and the message for a link that is not accepted.\<close>

definition login_widgets :: "event list" where
  "login_widgets = [StTitle (str ''Login''), StWidget (str ''Email''),
     StWidget (str ''Password''), StWidget (str ''Login'')]"

definition login_failure_events :: "event list" where
  "login_failure_events = [StTitle (str ''Login''), StWidget (str ''Email''),
     StWidget (str ''Password''), StWidget (str ''Login''),
     StError (str ''Invalid email or password.'')]"

definition signup_rejected_events :: "event list" where
  "signup_rejected_events = [StTitle (str ''Sign Up''), StWidget (str ''Email''),
     StWidget (str ''Password''), StWidget (str ''Sign Up''),
     StError (str ''User already exists.'')]"

text \<open>The part of a string before the first occurrence of a separator (all of it when
  there is none), and the part after that occurrence.\<close>

fun text_before :: "pystr \<Rightarrow> pystr \<Rightarrow> pystr" where
  "text_before sep [] = []"
| "text_before sep (c # cs) =
     (if sep \<noteq> [] \<and> prefix sep (c # cs) then [] else c # text_before sep cs)"

fun text_after :: "pystr \<Rightarrow> pystr \<Rightarrow> pystr" where
  "text_after sep [] = []"
| "text_after sep (c # cs) =
     (if sep \<noteq> [] \<and> prefix sep (c # cs) then drop (length sep) (c # cs)
      else text_after sep cs)"

text \<open>The transcript calls of a user-session run whose link gave this identifier: one
  call, for English, unless the identifier is empty.\<close>

definition fetch_calls_for :: "pystr \<Rightarrow> event list" where
  "fetch_calls_for video_id =
     (if video_id = [] then [] else [CallListTranscripts video_id (str ''en'')])"

text \<open>The two link shapes in the specification's words. A \<open>v=\<close> query parameter: one of
  the \<open>&\<close>-separated parameters after the first \<open>?\<close> starts with \<open>v=\<close>. A path segment
  after the short-link host marker: a non-empty text follows the first \<open>youtu.be/\<close>.\<close>

definition spec_v_parameter :: "pystr \<Rightarrow> bool" where
  "spec_v_parameter link =
     (py_in (str ''?'') link
      \<and> list_ex (prefix (str ''v=''))
           (py_split_sep (str ''&'') (text_after (str ''?'') link)))"

definition spec_short_link_segment :: "pystr \<Rightarrow> bool" where
  "spec_short_link_segment link =
     (py_in (str ''youtu.be/'') link
      \<and> text_before (str ''youtu.be/'') (text_after (str ''youtu.be/'') link) \<noteq> [])"

text \<open>What a run displays when nobody is logged in and no button is pressed: the sidebar
  and the login page, or the sidebar and the sign-up page.\<close>

definition login_screen_events :: "event list" where
  "login_screen_events = [StWidget (str ''Choose an option:''), StTitle (str ''Login''),
     StWidget (str ''Email''), StWidget (str ''Password''), StWidget (str ''Login'')]"

definition signup_screen_events :: "event list" where
  "signup_screen_events = [StWidget (str ''Choose an option:''), StTitle (str ''Sign Up''),
     StWidget (str ''Email''), StWidget (str ''Password''), StWidget (str ''Sign Up'')]"

definition link_error :: event where
  "link_error = StError (str ''Please enter a valid YouTube link.'')"


section \<open>Concrete environments, states and widget values\<close>

text \<open>An environment in which every service answers, used to run the functions on
  concrete inputs. \<open>env_generating content\<close> has the generative backend answer \<open>content\<close>,
  \<open>env_with_transcript entries\<close> has the transcript service answer \<open>entries\<close>,
  \<open>env_demo_video\<close> has both answer, in \<open>env_checkpw_raising\<close> \<open>bcrypt.checkpw\<close> refuses its
  arguments, and in \<open>env_pdf_failing\<close> saving the PDF fails.\<close>

definition demo_env :: env where
  "demo_env = \<lparr>yt_transcript = (\<lambda>video_id language. Inr []),
     gemini = (\<lambda>input. Inr []),
     translator = (\<lambda>content target. Inr content),
     hashpw = (\<lambda>pw salt. Inr (salt @ pw)),
     checkpw = (\<lambda>pw hashed. Inr False),
     gensalt = [],
     canvas_save = (\<lambda>ops. Inr []),
     content_insert_error = None,
     utcnow = str ''2024-01-01 00:00:00'',
     ADMIN_EMAIL = None,
     ADMIN_PASSWORD = None\<rparr>"

definition env_generating :: "pystr \<Rightarrow> env" where
  "env_generating content = demo_env\<lparr>gemini := (\<lambda>input. Inr content)\<rparr>"

definition env_with_transcript :: "entry list \<Rightarrow> env" where
  "env_with_transcript entries = demo_env\<lparr>yt_transcript := (\<lambda>video_id language. Inr entries)\<rparr>"

definition env_demo_video :: env where
  "env_demo_video = (env_with_transcript [\<lparr>entry_text = str ''hello world this is a test''\<rparr>])
     \<lparr>gemini := (\<lambda>input. Inr (str ''a test''))\<rparr>"

definition env_checkpw_raising :: env where
  "env_checkpw_raising = demo_env\<lparr>checkpw := (\<lambda>pw hashed. Inl ValueError)\<rparr>"

definition env_pdf_failing :: env where
  "env_pdf_failing = demo_env
     \<lparr>canvas_save := (\<lambda>ops. Inl (str ''[Errno 13] Permission denied'', None))\<rparr>"

text \<open>A session before its first run, a state with empty collections, and a logged-in
  state that holds generated content, a translation of it and a set export flag.\<close>

definition fresh_session :: session where
  "fresh_session = \<lparr>logged_in = None, is_admin_logged_in = None, user_email = None,
     generated_content = None, translated_content = None, pdf_generated = None\<rparr>"

definition empty_run :: run where
  "empty_run = \<lparr>session_state = fresh_session, users_collection = [],
     content_collection = [], files = Map.empty, out = []\<rparr>"

definition user_run :: run where
  "user_run = empty_run\<lparr>session_state := fresh_session
     \<lparr>logged_in := Some True, is_admin_logged_in := Some False,
      user_email := Some (Some (str ''a@b.com'')),
      generated_content := Some (Some (str ''old summary'')),
      translated_content := Some (Some (str ''resumen'')),
      pdf_generated := Some True\<rparr>\<rparr>"

text \<open>Widget values: nothing pressed; a sign-up of \<open>a@b.com\<close> with password \<open>p1\<close>; a link
  with neither marker; a short link; a link whose query has a \<open>rev\<close> parameter and no \<open>v\<close>
  parameter; a short-link host with no path segment; a click on \<open>Generate Content\<close> with a
  short link.\<close>

definition demo_inputs :: inputs where
  "demo_inputs = \<lparr>clicked = None, nav_choice = Login, email_input = str ''a@b.com'',
     password_input = str ''p1'', admin_email_input = [], admin_password_input = [],
     youtube_link_input = [], content_type_input = Summary,
     desired_word_count_input = 250, translation_language_input = Hindi\<rparr>"

definition signup_inputs :: inputs where
  "signup_inputs = demo_inputs\<lparr>nav_choice := SignUp, clicked := Some SignUpButton\<rparr>"




definition bare_short_link_inputs :: inputs where
  "bare_short_link_inputs = demo_inputs\<lparr>youtube_link_input := str ''https://youtu.be/''\<rparr>"

definition generate_inputs :: inputs where
  "generate_inputs = demo_inputs\<lparr>youtube_link_input := str ''https://youtu.be/abc123'',
     clicked := Some GenerateContentButton, desired_word_count_input := 50\<rparr>"


section \<open>Words, splitting and joining\<close>

lemma py_split_from_nospace:
  "list_all (\<lambda>c. \<not> isspace c) w \<Longrightarrow> py_split_from cur (w @ rest) = py_split_from (cur @ w) rest"
  by (induction w arbitrary: cur) auto

lemma py_split_from_words:
  "list_all (\<lambda>c. \<not> isspace c) cur \<Longrightarrow> list_all is_word (py_split_from cur s)"
  by (induction cur s rule: py_split_from.induct) (auto simp: is_word_def)

lemma py_split_words: "list_all is_word (py_split s)"
  by (simp add: py_split_def py_split_from_words)

lemma py_split_join_from:
  "list_all is_word (w # ws) \<Longrightarrow> list_all (\<lambda>c. \<not> isspace c) cur \<Longrightarrow>
   py_split_from cur (py_join [32] (w # ws)) = (cur @ w) # ws"
proof (induction ws arbitrary: cur w)
  case Nil
  then show ?case
    using py_split_from_nospace[of w cur "[]"] by (simp add: is_word_def)
next
  case (Cons y ys)
  have sp: "isspace 32" by (simp add: isspace_def)
  have w: "w \<noteq> []" "list_all (\<lambda>c. \<not> isspace c) w"
    using Cons.prems(1) by (simp_all add: is_word_def)
  have "py_split_from cur (py_join [32] (w # y # ys))
        = py_split_from (cur @ w) (32 # py_join [32] (y # ys))"
    using py_split_from_nospace[OF w(2), of cur "32 # py_join [32] (y # ys)"] by simp
  also have "\<dots> = (cur @ w) # py_split_from [] (py_join [32] (y # ys))"
    using w(1) sp by simp
  also have "py_split_from [] (py_join [32] (y # ys)) = y # ys"
    using Cons.IH[of y "[]"] Cons.prems(1) by simp
  finally show ?case .
qed

text \<open>Splitting the space-joined words gives the words back.\<close>

lemma py_split_join: "list_all is_word ws \<Longrightarrow> py_split (py_join [32] ws) = ws"
  by (cases ws) (simp_all add: py_split_def py_split_join_from)

lemma py_join_append_last:
  "ws \<noteq> [] \<Longrightarrow> py_join sep ws @ t = py_join sep (butlast ws @ [last ws @ t])"
  by (induction sep ws rule: py_join.induct) auto

lemma space_literal: "str '' '' = [32]"
  by (simp add: str_def)

lemma ellipsis_word: "list_all (\<lambda>c. \<not> isspace c) (str ''...'')"
  by (simp add: str_def isspace_def)

text \<open>The ellipsis joins the last word: the word count stays the same.\<close>

lemma word_count_truncated:
  assumes "list_all is_word ws" "ws \<noteq> []"
  shows "py_split (py_join (str '' '') ws @ str ''...'') = butlast ws @ [last ws @ str ''...'']"
proof -
  have "list_all is_word (butlast ws)"
    using assms(1) by (simp add: list_all_iff) (meson in_set_butlastD)
  moreover have "is_word (last ws)"
    using assms last_in_set[OF assms(2)] by (simp add: list_all_iff)
  then have "is_word (last ws @ str ''...'')"
    using ellipsis_word by (simp add: is_word_def)
  ultimately have "list_all is_word (butlast ws @ [last ws @ str ''...''])"
    by simp
  then show ?thesis
    using py_join_append_last[OF assms(2), of "[32]" "str ''...''"] py_split_join
    by (simp add: space_literal)
qed


section \<open>Content generation\<close>

text \<open>
  C1 (as amended). For every call \<open>generate_content("Summary", transcript, N)\<close> with a target
  word count \<open>N \<ge> 1\<close> and a successful backend response, the returned text has at most \<open>N\<close>
  words; and whenever the backend output has more than \<open>N\<close> words, the returned text is the
  first \<open>N\<close> words of the backend output joined by single spaces, with \<open>...\<close> appended.
  Otherwise the backend output is returned as it is.
\<close>

theorem generate_content_summary_clamped:
  assumes "1 \<le> N"
    and "gemini env (summary_prompt (Some N) @ transcript_text) = Inr content"
  shows "\<exists>returned.
           fst (generate_content env (str ''Summary'') transcript_text (Some N)) = Some returned
         \<and> int (length (py_split returned)) \<le> N
         \<and> (if int (length (py_split content)) > N
            then returned = py_join (str '' '') (take (nat N) (py_split content)) @ str ''...''
            else returned = content)"
proof (cases "int (length (py_split content)) > N")
  case True
  let ?ws = "take (nat N) (py_split content)"
  have ne: "?ws \<noteq> []" using True assms(1) by auto
  have words: "list_all is_word ?ws"
    using py_split_words[of content] by (simp add: list_all_iff) (meson in_set_takeD)
  have "length (py_split (py_join (str '' '') ?ws @ str ''...'')) = length ?ws"
    using ne by (simp add: word_count_truncated[OF words ne])
  also have "\<dots> = nat N"
    using True by simp
  finally have len: "length (py_split (py_join (str '' '') ?ws @ str ''...'')) = nat N" .
  show ?thesis
    using assms True len
    by (simp add: generate_content_def py_slice_to_def)
next
  case False
  then show ?thesis
    using assms by (simp add: generate_content_def)
qed

text \<open>The theorem at \<open>N = 3\<close> with a backend answer of five words.\<close>

theorem generate_content_summary_clamped_witness:
  "(1::int) \<le> 3
   \<and> gemini (env_generating (str ''one two three four five''))
       (summary_prompt (Some 3) @ str ''hello world this is a test'')
     = Inr (str ''one two three four five'')
   \<and> (\<exists>returned.
         fst (generate_content (env_generating (str ''one two three four five''))
               (str ''Summary'') (str ''hello world this is a test'') (Some 3)) = Some returned
       \<and> int (length (py_split returned)) \<le> 3
       \<and> (if int (length (py_split (str ''one two three four five''))) > 3
          then returned = py_join (str '' '') (take (nat 3)
                            (py_split (str ''one two three four five''))) @ str ''...''
          else returned = str ''one two three four five''))"
proof -
  have h: "gemini (env_generating (str ''one two three four five''))
             (summary_prompt (Some 3) @ str ''hello world this is a test'')
           = Inr (str ''one two three four five'')"
    by (simp add: env_generating_def)
  show ?thesis
    using generate_content_summary_clamped[of 3, OF _ h] h by simp
qed

text \<open>
  With a target of \<open>0\<close> the test of line 81 is false: the backend output comes back
  unchanged, and one word is more than zero words.
\<close>

theorem generate_content_zero_target_counterexample:
  "gemini (env_generating (str ''hello'')) (summary_prompt (Some 0) @ str ''some transcript'')
     = Inr (str ''hello'')
   \<and> fst (generate_content (env_generating (str ''hello'')) (str ''Summary'')
            (str ''some transcript'') (Some 0)) = Some (str ''hello'')
   \<and> \<not> int (length (py_split (str ''hello''))) \<le> 0"
  by (simp add: generate_content_def env_generating_def py_split_def str_def isspace_def)

text \<open>
  C10. For every call \<open>generate_content(kind, transcript, n)\<close> where \<open>kind\<close> is none of
  \<open>"Summary"\<close>, \<open>"Notes"\<close>, \<open>"Flashcards"\<close>, the message \<open>"Invalid content type selected."\<close> is
  returned at once and the generative backend is not invoked: the call has no event.
\<close>

theorem generate_content_unknown_kind:
  assumes "content_type \<noteq> str ''Summary''" and "content_type \<noteq> str ''Notes''"
    and "content_type \<noteq> str ''Flashcards''"
  shows "generate_content env content_type transcript_text desired_word_count
         = (Some (str ''Invalid content type selected.''), [])"
  using assms by (simp add: generate_content_def)

theorem generate_content_unknown_kind_witness:
  "str ''Quiz'' \<noteq> str ''Summary'' \<and> str ''Quiz'' \<noteq> str ''Notes''
   \<and> str ''Quiz'' \<noteq> str ''Flashcards''
   \<and> generate_content demo_env (str ''Quiz'') (str ''hello world'') (Some 50)
     = (Some (str ''Invalid content type selected.''), [])"
proof -
  have h: "str ''Quiz'' \<noteq> str ''Summary''" "str ''Quiz'' \<noteq> str ''Notes''"
    "str ''Quiz'' \<noteq> str ''Flashcards''"
    by (simp_all add: str_def)
  show ?thesis
    using generate_content_unknown_kind[OF h, of demo_env "str ''hello world''" "Some 50"] h
    by simp
qed

section \<open>Transcript fetching\<close>

lemma py_join_empty_iff:
  "sep \<noteq> [] \<Longrightarrow> (py_join sep xs = []) = (xs = [] \<or> xs = [[]])"
  by (induction sep xs rule: py_join.induct) auto

text \<open>
  C7 (as amended). For every video identifier with an available transcript track in the
  requested language, \<open>fetch_transcript\<close> returns the string equal to the space-joined
  concatenation of the segments' text fields in their original order. That string is
  non-empty exactly when the track has at least two segments or a segment with a non-empty
  text.
\<close>

theorem fetch_transcript_joined:
  assumes "yt_transcript env video_id language = Inr entries"
  shows "fst (fetch_transcript env video_id language)
           = Some (py_join (str '' '') (map entry_text entries))
         \<and> ((py_join (str '' '') (map entry_text entries) \<noteq> [])
            = (2 \<le> length entries \<or> (\<exists>e \<in> set entries. entry_text e \<noteq> [])))"
proof -
  have "(py_join (str '' '') (map entry_text entries) = [])
        = (entries = [] \<or> map entry_text entries = [[]])"
    using py_join_empty_iff[of "str '' ''" "map entry_text entries"] by (simp add: str_def)
  also have "\<dots> = (\<not> (2 \<le> length entries \<or> (\<exists>e \<in> set entries. entry_text e \<noteq> [])))"
    by (cases entries; cases "tl entries") auto
  finally show ?thesis
    using assms by (simp add: fetch_transcript_def)
qed

theorem fetch_transcript_joined_witness:
  "yt_transcript (env_with_transcript [\<lparr>entry_text = str ''hello world''\<rparr>,
       \<lparr>entry_text = str ''this is a test''\<rparr>]) (str ''abc123'') (str ''en'')
     = Inr [\<lparr>entry_text = str ''hello world''\<rparr>, \<lparr>entry_text = str ''this is a test''\<rparr>]
   \<and> fst (fetch_transcript (env_with_transcript [\<lparr>entry_text = str ''hello world''\<rparr>,
       \<lparr>entry_text = str ''this is a test''\<rparr>]) (str ''abc123'') (str ''en''))
     = Some (str ''hello world this is a test'')"
proof -
  have h: "yt_transcript (env_with_transcript [\<lparr>entry_text = str ''hello world''\<rparr>,
       \<lparr>entry_text = str ''this is a test''\<rparr>]) (str ''abc123'') (str ''en'')
     = Inr [\<lparr>entry_text = str ''hello world''\<rparr>, \<lparr>entry_text = str ''this is a test''\<rparr>]"
    by (simp add: env_with_transcript_def)
  show ?thesis
    using fetch_transcript_joined[OF h] h by (simp add: str_def)
qed

text \<open>A track without segments is available, and the returned string is empty.\<close>

theorem fetch_transcript_empty_track_counterexample:
  "yt_transcript (env_with_transcript []) (str ''abc123'') (str ''en'') = Inr []
   \<and> fst (fetch_transcript (env_with_transcript []) (str ''abc123'') (str ''en'')) = Some []"
  by (simp add: fetch_transcript_def env_with_transcript_def)


section \<open>Login\<close>

text \<open>When \<open>bcrypt.checkpw\<close> returns False, the login fails exactly as it does for an email
  that is not in the store: the same events, ending in the one message
  \<open>Invalid email or password.\<close>, and nothing else changes.\<close>

lemma login_mismatch_uniform:
  assumes "clicked inp1 = Some LoginButton" and "clicked inp2 = Some LoginButton"
    and "find_one (users_collection r1) (email_input inp1) = None"
    and "find_one (users_collection r2) (email_input inp2) = Some user"
    and "checkpw env2 (password_input inp2) (password user) = Inr False"
  shows "login_page env1 inp1 r1 = (Completed, emit login_failure_events r1)
         \<and> login_page env2 inp2 r2 = (Completed, emit login_failure_events r2)"
  using assms by (simp add: login_page_def emit_def login_failure_events_def)

text \<open>
  C5. What the code does when \<open>bcrypt.checkpw\<close> raises for the stored value of a user and
  the supplied password: for the same email and password, the login ends with the message
  \<open>Invalid email or password.\<close> if the email is not in the store, and in an uncaught
  exception, without that message, if it is. The two failures are told apart by the
  result.
\<close>

theorem login_exception_reveals_identifier:
  assumes "clicked inp = Some LoginButton"
    and "find_one (users_collection r1) (email_input inp) = None"
    and "find_one (users_collection r2) (email_input inp) = Some user"
    and "checkpw env (password_input inp) (password user) = Inl e"
  shows "login_page env inp r1 = (Completed, emit login_failure_events r1)
         \<and> login_page env inp r2 = (Uncaught e, emit login_widgets r2)"
  using assms
  by (simp add: login_page_def emit_def login_failure_events_def login_widgets_def)

text \<open>The theorem with an empty store in the first run and, in the second, the user
  \<open>a@b.com\<close> whose stored value is no bcrypt hash.\<close>

theorem login_exception_reveals_identifier_witness:
  "clicked (demo_inputs\<lparr>clicked := Some LoginButton\<rparr>) = Some LoginButton
   \<and> find_one (users_collection empty_run)
       (email_input (demo_inputs\<lparr>clicked := Some LoginButton\<rparr>)) = None
   \<and> find_one (users_collection (empty_run\<lparr>users_collection :=
         [\<lparr>email = str ''a@b.com'', password = [1, 2, 3]\<rparr>]\<rparr>))
       (email_input (demo_inputs\<lparr>clicked := Some LoginButton\<rparr>))
     = Some \<lparr>email = str ''a@b.com'', password = [1, 2, 3]\<rparr>
   \<and> checkpw env_checkpw_raising
       (password_input (demo_inputs\<lparr>clicked := Some LoginButton\<rparr>))
       (password \<lparr>email = str ''a@b.com'', password = [1, 2, 3]\<rparr>) = Inl ValueError
   \<and> login_page env_checkpw_raising (demo_inputs\<lparr>clicked := Some LoginButton\<rparr>) empty_run
     = (Completed, emit login_failure_events empty_run)
   \<and> login_page env_checkpw_raising (demo_inputs\<lparr>clicked := Some LoginButton\<rparr>)
       (empty_run\<lparr>users_collection := [\<lparr>email = str ''a@b.com'', password = [1, 2, 3]\<rparr>]\<rparr>)
     = (Uncaught ValueError, emit login_widgets
         (empty_run\<lparr>users_collection := [\<lparr>email = str ''a@b.com'', password = [1, 2, 3]\<rparr>]\<rparr>))"
proof -
  have c: "clicked (demo_inputs\<lparr>clicked := Some LoginButton\<rparr>) = Some LoginButton"
    by simp
  have a: "find_one (users_collection empty_run)
       (email_input (demo_inputs\<lparr>clicked := Some LoginButton\<rparr>)) = None"
    by (simp add: find_one_def empty_run_def)
  have w: "find_one (users_collection (empty_run\<lparr>users_collection :=
         [\<lparr>email = str ''a@b.com'', password = [1, 2, 3]\<rparr>]\<rparr>))
       (email_input (demo_inputs\<lparr>clicked := Some LoginButton\<rparr>))
     = Some \<lparr>email = str ''a@b.com'', password = [1, 2, 3]\<rparr>"
    by (simp add: find_one_def demo_inputs_def)
  have p: "checkpw env_checkpw_raising
       (password_input (demo_inputs\<lparr>clicked := Some LoginButton\<rparr>))
       (password \<lparr>email = str ''a@b.com'', password = [1, 2, 3]\<rparr>) = Inl ValueError"
    by (simp add: env_checkpw_raising_def)
  show ?thesis
    by (rule conjI[OF c conjI[OF a conjI[OF w conjI[OF p
          login_exception_reveals_identifier[OF c a w p]]]]])
qed

section \<open>What each function leaves unchanged\<close>

lemma emit_fields [simp]:
  "session_state (emit es r) = session_state r"
  "users_collection (emit es r) = users_collection r"
  "content_collection (emit es r) = content_collection r"
  "files (emit es r) = files r"
  "out (emit es r) = out r @ es"
  by (simp_all add: emit_def)

lemma generate_pdf_frame [simp]:
  "session_state (snd (generate_pdf env content ct r)) = session_state r"
  "users_collection (snd (generate_pdf env content ct r)) = users_collection r"
  "content_collection (snd (generate_pdf env content ct r)) = content_collection r"
  by (simp_all add: generate_pdf_def Let_def case_prod_beta split: sum.splits option.splits)

lemma login_page_frame [simp]:
  "users_collection (snd (login_page env inp r)) = users_collection r"
  "content_collection (snd (login_page env inp r)) = content_collection r"
  by (simp_all add: login_page_def Let_def split: option.splits sum.splits)

lemma admin_login_frame [simp]:
  "users_collection (admin_login env inp r) = users_collection r"
  "content_collection (admin_login env inp r) = content_collection r"
  by (simp_all add: admin_login_def Let_def)

lemma admin_panel_frame [simp]:
  "users_collection (admin_panel env inp r) = users_collection r"
  "content_collection (admin_panel env inp r) = content_collection r"
  by (simp_all add: admin_panel_def Let_def)

lemma signup_page_content [simp]:
  "content_collection (snd (signup_page env inp r)) = content_collection r"
  by (simp add: signup_page_def Let_def split: option.splits sum.splits)

lemma main_app_link_frame [simp]:
  "session_state (snd (main_app_link inp r)) = session_state r"
  "users_collection (snd (main_app_link inp r)) = users_collection r"
  "content_collection (snd (main_app_link inp r)) = content_collection r"
  by (simp_all add: main_app_link_def Let_def split: sum.splits)

lemma main_app_defaults_frame [simp]:
  "users_collection (main_app_defaults inp r) = users_collection r"
  "content_collection (main_app_defaults inp r) = content_collection r"
  by (simp_all add: main_app_defaults_def Let_def)

lemma main_app_generate_frame [simp]:
  "users_collection (main_app_generate env inp video_id r) = users_collection r"
  "content_collection (main_app_generate env inp video_id r) = content_collection r"
  by (simp_all add: main_app_generate_def Let_def case_prod_beta split: option.splits)

lemma main_app_display_frame [simp]:
  "users_collection (snd (main_app_display env inp r)) = users_collection r"
  "content_collection (snd (main_app_display env inp r)) = content_collection r"
  by (simp_all add: main_app_display_def Let_def case_prod_beta split: option.splits)

lemma main_app_translated_frame [simp]:
  "session_state (snd (main_app_translated inp r)) = session_state r"
  "users_collection (snd (main_app_translated inp r)) = users_collection r"
  "content_collection (snd (main_app_translated inp r)) = content_collection r"
  by (simp_all add: main_app_translated_def split: option.splits)

lemma main_app_frame [simp]:
  "users_collection (snd (main_app env inp r)) = users_collection r"
  "content_collection (snd (main_app env inp r)) = content_collection r"
  by (simp_all add: main_app_def Let_def case_prod_beta split: sum.splits outcome.splits)

lemma script_start_frame [simp]:
  "users_collection (script_start r) = users_collection r"
  "content_collection (script_start r) = content_collection r"
  "out (script_start r) = []"
  by (simp_all add: script_start_def Let_def)

lemma script_content:
  "content_collection (snd (script env inp r)) = content_collection r"
  by (simp add: script_def unauthenticated_def Let_def split: nav_option.splits)

lemma runs_content: "content_collection (runs steps r) = content_collection r"
  by (induction steps r rule: runs.induct) (simp_all add: script_content)

section \<open>No write to the generated-content collection\<close>

lemma service_events_no_insert [simp]:
  "filter is_content_insert (snd (fetch_transcript env video_id language)) = []"
  "filter is_content_insert (snd (generate_content env ct t n)) = []"
  "filter is_content_insert (snd (translate_content env c l)) = []"
  by (simp_all add: fetch_transcript_def generate_content_def translate_content_def
      split: sum.splits yt_exception.splits option.splits)

lemma generate_pdf_no_insert [simp]:
  "filter is_content_insert (out (snd (generate_pdf env content ct r)))
   = filter is_content_insert (out r)"
  by (simp add: generate_pdf_def Let_def case_prod_beta split: sum.splits option.splits)

lemma login_page_no_insert [simp]:
  "filter is_content_insert (out (snd (login_page env inp r)))
   = filter is_content_insert (out r)"
  by (simp add: login_page_def Let_def split: option.splits sum.splits)

lemma signup_page_no_insert [simp]:
  "filter is_content_insert (out (snd (signup_page env inp r)))
   = filter is_content_insert (out r)"
  by (simp add: signup_page_def Let_def split: option.splits sum.splits)

lemma admin_login_no_insert [simp]:
  "filter is_content_insert (out (admin_login env inp r)) = filter is_content_insert (out r)"
  by (simp add: admin_login_def Let_def)

lemma admin_panel_no_insert [simp]:
  "filter is_content_insert (out (admin_panel env inp r)) = filter is_content_insert (out r)"
  by (simp add: admin_panel_def Let_def filter_map comp_def)

lemma main_app_link_no_insert [simp]:
  "filter is_content_insert (out (snd (main_app_link inp r)))
   = filter is_content_insert (out r)"
  by (simp add: main_app_link_def Let_def split: sum.splits)

lemma main_app_defaults_no_insert [simp]:
  "filter is_content_insert (out (main_app_defaults inp r)) = filter is_content_insert (out r)"
  by (simp add: main_app_defaults_def Let_def)

lemma main_app_generate_no_insert [simp]:
  "filter is_content_insert (out (main_app_generate env inp video_id r))
   = filter is_content_insert (out r)"
  by (simp add: main_app_generate_def Let_def case_prod_beta split: option.splits)

lemma main_app_display_no_insert [simp]:
  "filter is_content_insert (out (snd (main_app_display env inp r)))
   = filter is_content_insert (out r)"
  by (simp add: main_app_display_def Let_def case_prod_beta split: option.splits)

lemma main_app_translated_no_insert [simp]:
  "filter is_content_insert (out (snd (main_app_translated inp r)))
   = filter is_content_insert (out r)"
  by (simp add: main_app_translated_def split: option.splits)

lemma main_app_no_insert [simp]:
  "filter is_content_insert (out (snd (main_app env inp r)))
   = filter is_content_insert (out r)"
  by (simp add: main_app_def Let_def case_prod_beta split: sum.splits outcome.splits)

lemma save_to_mongodb_writes:
  "content_insert_error env = None \<Longrightarrow>
   length (content_collection (save_to_mongodb env e v ct c l r))
   = Suc (length (content_collection r))"
  by (simp add: save_to_mongodb_def Let_def)

lemma save_to_mongodb_event:
  "filter is_content_insert (out (save_to_mongodb env e v ct c l r)) \<noteq> []"
  by (simp add: save_to_mongodb_def Let_def split: option.splits)

text \<open>
  C2. No run of the script, on any screen (login, sign-up, admin login, admin panel, the
  user session with generation, translation and export), calls \<open>save_to_mongodb\<close>: the
  run has no \<open>content_collection.insert_one\<close> event and leaves the generated-content
  collection as it was, and so does every sequence of runs. (\<open>save_to_mongodb\<close> itself
  always has that event, and adds a document when the insertion succeeds.)
\<close>

theorem content_collection_never_written:
  "content_collection (snd (script env inp r)) = content_collection r
   \<and> filter is_content_insert (out (snd (script env inp r))) = []
   \<and> content_collection (runs steps r) = content_collection r"
  by (simp add: script_content runs_content)
     (simp add: script_def unauthenticated_def Let_def split: nav_option.splits)

section \<open>Sign-up\<close>

lemma find_one_None_iff:
  "(find_one users e = None) = (filter (\<lambda>u. email u = e) users = [])"
  by (auto simp add: find_one_def find_None_iff filter_empty_conv)

lemma signup_page_users:
  "users_collection (snd (signup_page env inp r))
   = (if clicked inp = Some SignUpButton \<and> find_one (users_collection r) (email_input inp) = None
      then (case hashpw env (password_input inp) (gensalt env) of
              Inl e \<Rightarrow> users_collection r
            | Inr hashed \<Rightarrow>
                users_collection r @ [\<lparr>email = email_input inp, password = hashed\<rparr>])
      else users_collection r)"
  by (simp add: signup_page_def Let_def split: option.splits sum.splits)

lemma signup_page_Rerun_iff:
  "(fst (signup_page env inp r) = Rerun)
   = (clicked inp = Some SignUpButton \<and> find_one (users_collection r) (email_input inp) = None
      \<and> (\<exists>hashed. hashpw env (password_input inp) (gensalt env) = Inr hashed))"
  by (simp add: signup_page_def Let_def split: option.splits sum.splits)

lemma signup_page_keeps_registered:
  assumes "length (filter (\<lambda>u. email u = e) (users_collection r)) = 1"
  shows "length (filter (\<lambda>u. email u = e) (users_collection (snd (signup_page env inp r)))) = 1"
proof (cases "clicked inp = Some SignUpButton
    \<and> find_one (users_collection r) (email_input inp) = None")
  case True
  then have "filter (\<lambda>u. email u = email_input inp) (users_collection r) = []"
    by (simp add: find_one_None_iff)
  with assms have "email_input inp \<noteq> e" by auto
  with assms show ?thesis
    by (simp only: signup_page_users if_P[OF True]) (simp split: sum.splits)
next
  case False
  with assms show ?thesis by (simp only: signup_page_users if_not_P[OF False] if_False)
qed

lemma script_keeps_registered:
  assumes "length (filter (\<lambda>u. email u = e) (users_collection r)) = 1"
  shows "length (filter (\<lambda>u. email u = e) (users_collection (snd (script env inp r)))) = 1"
  using assms signup_page_keeps_registered[of e _ env inp]
  by (simp add: script_def unauthenticated_def Let_def split: nav_option.splits)

lemma runs_keep_registered:
  "length (filter (\<lambda>u. email u = e) (users_collection r)) = 1 \<Longrightarrow>
   length (filter (\<lambda>u. email u = e) (users_collection (runs steps r))) = 1"
  by (induction steps r rule: runs.induct) (simp_all add: script_keeps_registered)

text \<open>
  C4. If a sign-up for an email succeeds (the run registers the user and ends in
  \<open>st.rerun()\<close>), then a later sign-up with the same email, after any sequence of script
  runs in between, is rejected with \<open>User already exists.\<close> and changes nothing, and the
  store then holds exactly one user with that email.
\<close>

theorem signup_twice_rejected:
  assumes "signup_page env1 inp1 r = (Rerun, r1)"
    and "clicked inp2 = Some SignUpButton"
    and "email_input inp2 = email_input inp1"
  shows "signup_page env2 inp2 (runs between r1)
           = (Completed, emit signup_rejected_events (runs between r1))
         \<and> length (filter (\<lambda>u. email u = email_input inp1)
              (users_collection (snd (signup_page env2 inp2 (runs between r1))))) = 1"
proof -
  have "fst (signup_page env1 inp1 r) = Rerun"
    using assms(1) by simp
  then obtain hashed where ok: "clicked inp1 = Some SignUpButton"
    "find_one (users_collection r) (email_input inp1) = None"
    "hashpw env1 (password_input inp1) (gensalt env1) = Inr hashed"
    by (auto simp add: signup_page_Rerun_iff)
  have "users_collection r1
      = users_collection r @ [\<lparr>email = email_input inp1, password = hashed\<rparr>]"
    using assms(1) ok signup_page_users[of env1 inp1 r] by simp
  then have one: "length (filter (\<lambda>u. email u = email_input inp1) (users_collection r1)) = 1"
    using ok(2) by (simp add: find_one_None_iff)
  then have kept: "length (filter (\<lambda>u. email u = email_input inp1)
      (users_collection (runs between r1))) = 1"
    by (rule runs_keep_registered)
  then have "find_one (users_collection (runs between r1)) (email_input inp2) \<noteq> None"
    using assms(3) by (auto simp add: find_one_None_iff)
  then obtain user where
    found: "find_one (users_collection (runs between r1)) (email_input inp2) = Some user"
    by auto
  have rejected: "signup_page env2 inp2 (runs between r1)
      = (Completed, emit signup_rejected_events (runs between r1))"
    using assms(2) found by (simp add: signup_page_def emit_def signup_rejected_events_def)
  show ?thesis
    using rejected kept by simp
qed

text \<open>The theorem for two sign-ups of \<open>a@b.com\<close> with a visit of the login page between
  them.\<close>

theorem signup_twice_rejected_witness:
  "signup_page demo_env signup_inputs empty_run
     = (Rerun, snd (signup_page demo_env signup_inputs empty_run))
   \<and> clicked signup_inputs = Some SignUpButton
   \<and> signup_page demo_env signup_inputs
       (runs [(demo_env, demo_inputs)] (snd (signup_page demo_env signup_inputs empty_run)))
     = (Completed, emit signup_rejected_events
         (runs [(demo_env, demo_inputs)] (snd (signup_page demo_env signup_inputs empty_run))))
   \<and> length (filter (\<lambda>u. email u = email_input signup_inputs)
        (users_collection (snd (signup_page demo_env signup_inputs
          (runs [(demo_env, demo_inputs)]
            (snd (signup_page demo_env signup_inputs empty_run))))))) = 1"
proof -
  have c: "clicked signup_inputs = Some SignUpButton"
    by (simp add: signup_inputs_def)
  have "fst (signup_page demo_env signup_inputs empty_run) = Rerun"
    by (simp add: signup_page_Rerun_iff c find_one_def empty_run_def demo_env_def)
  then have h: "signup_page demo_env signup_inputs empty_run
     = (Rerun, snd (signup_page demo_env signup_inputs empty_run))"
    by (simp add: prod_eq_iff)
  show ?thesis
    by (rule conjI[OF h conjI[OF c
          signup_twice_rejected[OF h c refl, of demo_env "[(demo_env, demo_inputs)]"]]])
qed


section \<open>After a sign-up\<close>

lemma main_app_not_Rerun: "fst (main_app env inp r) \<noteq> Rerun"
  by (simp add: main_app_def main_app_display_def main_app_translated_def Let_def
      case_prod_beta split: sum.splits outcome.splits option.splits)

lemma script_start_flags:
  "logged_in (session_state (script_start r)) = Some (logged_in (session_state r) = Some True)"
  "is_admin_logged_in (session_state (script_start r))
   = Some (is_admin_logged_in (session_state r) = Some True)"
  by (auto simp add: script_start_def Let_def)

lemma script_start_present:
  "logged_in (session_state r) = Some a \<Longrightarrow> is_admin_logged_in (session_state r) = Some b \<Longrightarrow>
   script_start r = r\<lparr>out := []\<rparr>"
  by (simp add: script_start_def Let_def)

text \<open>
  C9. What the code does after a registration. A script run that ends in \<open>st.rerun()\<close> is
  a completed registration from the sign-up page, and it leaves \<open>logged_in\<close> False and
  \<open>user_email\<close> None, so the user session is not entered. The run that \<open>st.rerun()\<close>
  starts shows the sign-up page again, since the sidebar still says \<open>Sign Up\<close>: the login
  page appears only in a run whose sidebar option is \<open>Login\<close>. The comments of lines 146
  and 150 say that the rerun takes the user to the login page.
\<close>

theorem signup_rerun_shows_signup_page:
  assumes "script env inp r = (Rerun, r')"
  shows "logged_in (session_state r') = Some False
         \<and> user_email (session_state r') = Some None
         \<and> nav_choice inp = SignUp
         \<and> interaction env inp r = (Completed, emit signup_screen_events (r'\<lparr>out := []\<rparr>))
         \<and> script env' (inp\<lparr>clicked := None, nav_choice := Login\<rparr>) r'
           = (Completed, emit login_screen_events (r'\<lparr>out := []\<rparr>))"
proof -
  let ?r1 = "script_start r"
  let ?r2 = "emit [StWidget (str ''Choose an option:'')] ?r1"
  have na: "logged_in (session_state ?r1) \<noteq> Some True"
  proof
    assume "logged_in (session_state ?r1) = Some True"
    then have "script env inp r = main_app env inp ?r1"
      by (simp add: script_def Let_def)
    with assms show False
      using main_app_not_Rerun[of env inp ?r1] by simp
  qed
  have nb: "is_admin_logged_in (session_state ?r1) \<noteq> Some True"
  proof
    assume "is_admin_logged_in (session_state ?r1) = Some True"
    then have "fst (script env inp r) = Completed"
      using na by (simp add: script_def Let_def)
    with assms show False by simp
  qed
  have un: "script env inp r = unauthenticated env inp ?r1"
    using na nb by (simp add: script_def Let_def)
  have nl: "fst (login_page env inp ?r2) \<noteq> Rerun"
    by (simp add: login_page_def Let_def split: option.splits sum.splits)
  have nav: "nav_choice inp = SignUp"
    using assms un nl by (cases "nav_choice inp") (auto simp add: unauthenticated_def Let_def)
  have su: "signup_page env inp ?r2 = (Rerun, r')"
    using assms un nav by (simp add: unauthenticated_def Let_def)
  then have "fst (signup_page env inp ?r2) = Rerun"
    by simp
  then obtain hashed where ok: "clicked inp = Some SignUpButton"
    "find_one (users_collection r) (email_input inp) = None"
    "hashpw env (password_input inp) (gensalt env) = Inr hashed"
    by (auto simp add: signup_page_Rerun_iff)
  have r': "r' = snd (signup_page env inp ?r2)"
    using su by simp
  have flags: "logged_in (session_state r') = Some False"
    "user_email (session_state r') = Some None"
    "is_admin_logged_in (session_state r') = is_admin_logged_in (session_state ?r1)"
    using ok by (simp_all add: r' signup_page_def Let_def)
  have adm: "is_admin_logged_in (session_state r') = Some False"
    using nb flags(3) script_start_flags(2)[of r] by simp
  have start: "script_start r' = r'\<lparr>out := []\<rparr>"
    using flags(1) adm by (rule script_start_present)
  have next_run: "script env0 inp0 r' = unauthenticated env0 inp0 (r'\<lparr>out := []\<rparr>)"
    for env0 inp0
    using flags(1) adm start by (simp add: script_def Let_def)
  have again: "script env (inp\<lparr>clicked := None\<rparr>) r'
      = (Completed, emit signup_screen_events (r'\<lparr>out := []\<rparr>))"
    using nav
    by (simp add: next_run unauthenticated_def signup_page_def Let_def emit_def
        signup_screen_events_def)
  have login: "script env' (inp\<lparr>clicked := None, nav_choice := Login\<rparr>) r'
      = (Completed, emit login_screen_events (r'\<lparr>out := []\<rparr>))"
    by (simp add: next_run unauthenticated_def login_page_def Let_def emit_def
        login_screen_events_def)
  have "interaction env inp r = (Completed, emit signup_screen_events (r'\<lparr>out := []\<rparr>))"
    using assms again by (simp add: interaction_def)
  with flags(1,2) nav login show ?thesis by simp
qed

text \<open>The theorem for the registration of \<open>a@b.com\<close> in a fresh session.\<close>

theorem signup_rerun_shows_signup_page_witness:
  "script demo_env signup_inputs empty_run
     = (Rerun, snd (script demo_env signup_inputs empty_run))
   \<and> logged_in (session_state (snd (script demo_env signup_inputs empty_run))) = Some False
   \<and> user_email (session_state (snd (script demo_env signup_inputs empty_run))) = Some None
   \<and> nav_choice signup_inputs = SignUp
   \<and> interaction demo_env signup_inputs empty_run
     = (Completed, emit signup_screen_events
         ((snd (script demo_env signup_inputs empty_run))\<lparr>out := []\<rparr>))
   \<and> script demo_env (signup_inputs\<lparr>clicked := None, nav_choice := Login\<rparr>)
       (snd (script demo_env signup_inputs empty_run))
     = (Completed, emit login_screen_events
         ((snd (script demo_env signup_inputs empty_run))\<lparr>out := []\<rparr>))"
proof -
  have "fst (script demo_env signup_inputs empty_run) = Rerun"
    by (simp add: script_def script_start_def unauthenticated_def signup_page_Rerun_iff
        Let_def signup_inputs_def demo_inputs_def empty_run_def fresh_session_def find_one_def
        demo_env_def)
  then have h: "script demo_env signup_inputs empty_run
     = (Rerun, snd (script demo_env signup_inputs empty_run))"
    by (simp add: prod_eq_iff)
  show ?thesis
    by (rule conjI[OF h signup_rerun_shows_signup_page[OF h, of demo_env]])
qed


section \<open>Link parsing\<close>

lemma py_split_sep_from_pieces:
  "py_split_sep_from sep cur s
   = (cur @ text_before sep s)
     # (if sep \<noteq> [] \<and> py_in sep s then py_split_sep_from sep [] (text_after sep s) else [])"
  by (induction sep cur s rule: py_split_sep_from.induct) auto

lemma py_split_sep_pieces:
  "py_split_sep sep s
   = text_before sep s
     # (if sep \<noteq> [] \<and> py_in sep s then py_split_sep sep (text_after sep s) else [])"
  using py_split_sep_from_pieces[of sep "[]" s] by (simp add: py_split_sep_def)

lemma py_index_first: "py_index (py_split_sep sep s) 0 = Inr (text_before sep s)"
  by (subst py_split_sep_pieces) (simp add: py_index_def)

lemma py_index_second:
  assumes "sep \<noteq> []" and "py_in sep s"
  shows "py_index (py_split_sep sep s) 1 = Inr (text_before sep (text_after sep s))"
proof -
  have "py_split_sep sep s = text_before sep s # py_split_sep sep (text_after sep s)"
    using assms by (subst py_split_sep_pieces) simp
  also have "py_split_sep sep (text_after sep s)
      = text_before sep (text_after sep s)
        # (if sep \<noteq> [] \<and> py_in sep (text_after sep s)
           then py_split_sep sep (text_after sep (text_after sep s)) else [])"
    by (rule py_split_sep_pieces)
  finally show ?thesis
    by (simp add: py_index_def)
qed

lemma py_index_second_absent:
  "\<not> py_in sep s \<Longrightarrow> py_index (py_split_sep sep s) 1 = Inl IndexError"
  by (subst py_split_sep_pieces) (simp add: py_index_def)

text \<open>The two parts are the string around the first occurrence of the separator.\<close>

lemma text_before_after:
  "sep \<noteq> [] \<Longrightarrow> py_in sep s \<Longrightarrow> text_before sep s @ sep @ text_after sep s = s"
proof (induction s)
  case Nil
  then show ?case by simp
next
  case (Cons c cs)
  show ?case
  proof (cases "prefix sep (c # cs)")
    case True
    then have "sep @ drop (length sep) (c # cs) = c # cs"
      by (auto simp add: prefix_def)
    moreover have "text_before sep (c # cs) = []"
      "text_after sep (c # cs) = drop (length sep) (c # cs)"
      using True Cons.prems(1) by simp_all
    ultimately show ?thesis by simp
  next
    case False
    with Cons show ?thesis by simp
  qed
qed

lemma text_before_absent: "\<not> py_in sep s \<Longrightarrow> text_before sep s = s"
  by (induction s) auto

text \<open>Line 213: the identifier is the text after the first \<open>v=\<close> up to the next \<open>v=\<close> or
  \<open>&\<close>; without \<open>v=\<close> it is the text after the first \<open>youtu.be/\<close> up to the next one.\<close>

lemma extract_video_id_eq:
  "extract_video_id link
   = (if py_in (str ''v='') link
      then Inr (text_before (str ''&'') (text_before (str ''v='') (text_after (str ''v='') link)))
      else if py_in (str ''youtu.be/'') link
      then Inr (text_before (str ''youtu.be/'') (text_after (str ''youtu.be/'') link))
      else Inl IndexError)"
proof -
  have ne: "str ''v='' \<noteq> []" "str ''youtu.be/'' \<noteq> []"
    by (simp_all add: str_def)
  show ?thesis
    by (simp add: extract_video_id_def py_index_second[OF ne(1)] py_index_second[OF ne(2)]
        py_index_second_absent py_index_first del: One_nat_def)
qed

lemma extract_video_id_short_link:
  "extract_video_id (str ''https://youtu.be/abc123'') = Inr (str ''abc123'')"
  by (simp add: extract_video_id_def py_split_sep_def py_index_def str_def)

lemma extract_video_id_watch_link:
  "extract_video_id (str ''https://www.youtube.com/watch?v=abc123&t=42'') = Inr (str ''abc123'')"
  by (simp add: extract_video_id_def py_split_sep_def py_index_def str_def)


section \<open>Events of the user session\<close>

lemma service_events_link [simp]:
  "link_error \<notin> set (snd (fetch_transcript env video_id language))"
  "link_error \<notin> set (snd (generate_content env ct t n))"
  "link_error \<notin> set (snd (translate_content env c l))"
  by (simp_all add: fetch_transcript_def generate_content_def translate_content_def
      link_error_def str_def split: sum.splits yt_exception.splits option.splits)

lemma service_events_fetch [simp]:
  "filter is_fetch_call (snd (fetch_transcript env video_id language))
   = [CallListTranscripts video_id language]"
  "filter is_fetch_call (snd (generate_content env ct t n)) = []"
  "filter is_fetch_call (snd (translate_content env c l)) = []"
  by (simp_all add: fetch_transcript_def generate_content_def translate_content_def
      split: sum.splits yt_exception.splits option.splits)

lemma link_error_no_fetch [simp]: "\<not> is_fetch_call link_error"
  by (simp add: link_error_def)

lemma generate_pdf_out [simp]:
  "(link_error \<in> set (out (snd (generate_pdf env content ct r)))) = (link_error \<in> set (out r))"
  "filter is_fetch_call (out (snd (generate_pdf env content ct r)))
   = filter is_fetch_call (out r)"
  by (simp_all add: generate_pdf_def Let_def case_prod_beta link_error_def
      split: sum.splits option.splits)

lemma main_app_defaults_out [simp]:
  "(link_error \<in> set (out (main_app_defaults inp r))) = (link_error \<in> set (out r))"
  "filter is_fetch_call (out (main_app_defaults inp r)) = filter is_fetch_call (out r)"
  by (simp_all add: main_app_defaults_def Let_def link_error_def)

lemma main_app_generate_link [simp]:
  "(link_error \<in> set (out (main_app_generate env inp video_id r))) = (link_error \<in> set (out r))"
  by (simp add: main_app_generate_def Let_def case_prod_beta link_error_def[symmetric]
      split: option.splits)
     (simp add: link_error_def)

lemma main_app_generate_fetch:
  "filter is_fetch_call (out (main_app_generate env inp video_id r))
   = filter is_fetch_call (out r)
     @ (case video_id of None \<Rightarrow> [] | Some vid \<Rightarrow> fetch_calls_for vid)"
  by (simp add: main_app_generate_def Let_def case_prod_beta fetch_calls_for_def
      split: option.splits)

lemma main_app_display_out [simp]:
  "(link_error \<in> set (out (snd (main_app_display env inp r)))) = (link_error \<in> set (out r))"
  "filter is_fetch_call (out (snd (main_app_display env inp r)))
   = filter is_fetch_call (out r)"
  by (simp_all add: main_app_display_def Let_def case_prod_beta split: option.splits)
     (simp_all add: link_error_def)

lemma main_app_translated_out [simp]:
  "(link_error \<in> set (out (snd (main_app_translated inp r)))) = (link_error \<in> set (out r))"
  "filter is_fetch_call (out (snd (main_app_translated inp r)))
   = filter is_fetch_call (out r)"
  by (simp_all add: main_app_translated_def link_error_def split: option.splits)

lemma main_app_link_fetch [simp]:
  "filter is_fetch_call (out (snd (main_app_link inp r))) = filter is_fetch_call (out r)"
  by (simp add: main_app_link_def Let_def split: sum.splits)

lemma main_app_link_error:
  "(link_error \<in> set (out (snd (main_app env inp r))))
   = (link_error \<in> set (out (snd (main_app_link inp r))))"
  by (simp add: main_app_def Let_def case_prod_beta split: sum.splits outcome.splits)

lemma main_app_fetch:
  "fst (main_app_link inp r) = Inr video_id \<Longrightarrow>
   filter is_fetch_call (out (snd (main_app env inp r)))
   = filter is_fetch_call (out r)
     @ (case video_id of None \<Rightarrow> [] | Some vid \<Rightarrow> fetch_calls_for vid)"
  by (simp add: main_app_def Let_def case_prod_beta main_app_generate_fetch
      split: sum.splits outcome.splits)

text \<open>Lines 211 to 216, by the form of the link.\<close>

lemma main_app_link_result:
  "fst (main_app_link inp r)
   = (if youtube_link_input inp = [] then Inr None
      else if py_in (str ''v='') (youtube_link_input inp)
              \<or> py_in (str ''youtu.be/'') (youtube_link_input inp)
      then map_sum id Some (extract_video_id (youtube_link_input inp))
      else Inr None)"
  by (simp add: main_app_link_def Let_def split: sum.splits)

lemma main_app_link_reports:
  "(link_error \<in> set (out (snd (main_app_link inp r))))
   = (link_error \<in> set (out r)
      \<or> (youtube_link_input inp \<noteq> [] \<and> \<not> py_in (str ''v='') (youtube_link_input inp)
         \<and> \<not> py_in (str ''youtu.be/'') (youtube_link_input inp)))"
  by (auto simp add: main_app_link_def Let_def link_error_def split: sum.splits)

lemma user_session_link_events:
  assumes "logged_in (session_state r) = Some True"
  shows "if youtube_link_input inp = []
         then link_error \<notin> set (out (snd (script env inp r)))
              \<and> filter is_fetch_call (out (snd (script env inp r))) = []
         else if py_in (str ''v='') (youtube_link_input inp)
         then extract_video_id (youtube_link_input inp)
                = Inr (text_before (str ''&'') (text_before (str ''v='')
                         (text_after (str ''v='') (youtube_link_input inp))))
              \<and> link_error \<notin> set (out (snd (script env inp r)))
              \<and> filter is_fetch_call (out (snd (script env inp r)))
                = fetch_calls_for (text_before (str ''&'') (text_before (str ''v='')
                    (text_after (str ''v='') (youtube_link_input inp))))
         else if py_in (str ''youtu.be/'') (youtube_link_input inp)
         then extract_video_id (youtube_link_input inp)
                = Inr (text_before (str ''youtu.be/'')
                         (text_after (str ''youtu.be/'') (youtube_link_input inp)))
              \<and> link_error \<notin> set (out (snd (script env inp r)))
              \<and> filter is_fetch_call (out (snd (script env inp r)))
                = fetch_calls_for (text_before (str ''youtu.be/'')
                    (text_after (str ''youtu.be/'') (youtube_link_input inp)))
         else link_error \<in> set (out (snd (script env inp r)))
              \<and> filter is_fetch_call (out (snd (script env inp r))) = []"
proof -
  have logged: "logged_in (session_state (script_start r)) = Some True"
    using assms by (simp add: script_start_flags)
  then have run: "script env inp r = main_app env inp (script_start r)"
    by (simp add: script_def Let_def)
  let ?link = "youtube_link_input inp"
  have error: "(link_error \<in> set (out (snd (script env inp r))))
      = (?link \<noteq> [] \<and> \<not> py_in (str ''v='') ?link \<and> \<not> py_in (str ''youtu.be/'') ?link)"
    by (simp add: run main_app_link_error main_app_link_reports)
  have calls: "filter is_fetch_call (out (snd (script env inp r)))
      = (case video_id of None \<Rightarrow> [] | Some vid \<Rightarrow> fetch_calls_for vid)"
    if "fst (main_app_link inp (script_start r)) = Inr video_id" for video_id
    using main_app_fetch[OF that, of env] by (simp add: run)
  show ?thesis
  proof (cases "?link = []")
    case True
    then have "fst (main_app_link inp (script_start r)) = Inr None"
      by (simp add: main_app_link_result)
    from calls[OF this] True error show ?thesis by simp
  next
    case False
    show ?thesis
    proof (cases "py_in (str ''v='') ?link \<or> py_in (str ''youtu.be/'') ?link")
      case True
      then have "\<exists>vid. extract_video_id ?link = Inr vid"
        by (cases "py_in (str ''v='') ?link") (simp_all add: extract_video_id_eq)
      then obtain vid where vid: "extract_video_id ?link = Inr vid" ..
      then have "fst (main_app_link inp (script_start r)) = Inr (Some vid)"
        using False True by (simp add: main_app_link_result)
      from calls[OF this] vid False True error show ?thesis
        by (auto simp add: extract_video_id_eq split: if_splits)
    next
      case none: False
      then have "fst (main_app_link inp (script_start r)) = Inr None"
        using False by (simp add: main_app_link_result)
      from calls[OF this] False none error show ?thesis by simp
    qed
  qed
qed




text \<open>The short-link host without a path segment is accepted too, with the empty
  identifier: nothing is reported and nothing is fetched.\<close>

lemma bare_short_link_accepted:
  "\<not> spec_v_parameter (youtube_link_input bare_short_link_inputs)
   \<and> \<not> spec_short_link_segment (youtube_link_input bare_short_link_inputs)
   \<and> extract_video_id (youtube_link_input bare_short_link_inputs) = Inr []
   \<and> link_error \<notin> set (out (snd (script demo_env bare_short_link_inputs user_run)))
   \<and> filter is_fetch_call (out (snd (script demo_env bare_short_link_inputs user_run))) = []"
proof -
  have h: "logged_in (session_state user_run) = Some True"
    by (simp add: user_run_def)
  have shape: "\<not> spec_v_parameter (youtube_link_input bare_short_link_inputs)"
    "\<not> spec_short_link_segment (youtube_link_input bare_short_link_inputs)"
    by (simp_all add: spec_v_parameter_def spec_short_link_segment_def
        bare_short_link_inputs_def py_split_sep_def str_def)
  have link: "youtube_link_input bare_short_link_inputs \<noteq> []"
    "\<not> py_in (str ''v='') (youtube_link_input bare_short_link_inputs)"
    "py_in (str ''youtu.be/'') (youtube_link_input bare_short_link_inputs)"
    "text_before (str ''youtu.be/'')
       (text_after (str ''youtu.be/'') (youtube_link_input bare_short_link_inputs)) = []"
    by (simp_all add: bare_short_link_inputs_def str_def)
  have id: "fetch_calls_for [] = []"
    by (simp add: fetch_calls_for_def)
  have "extract_video_id (youtube_link_input bare_short_link_inputs) = Inr []
     \<and> link_error \<notin> set (out (snd (script demo_env bare_short_link_inputs user_run)))
     \<and> filter is_fetch_call (out (snd (script demo_env bare_short_link_inputs user_run))) = []"
    using user_session_link_events[OF h, of bare_short_link_inputs demo_env]
    by (simp only: link id if_True if_False simp_thms)
  with shape show ?thesis by blast
qed


section \<open>Generation invalidates the translation and the export flag\<close>

lemma main_app_display_session:
  "clicked inp \<noteq> Some TranslateContentButton \<Longrightarrow>
   session_state (snd (main_app_display env inp r)) = session_state r"
  by (simp add: main_app_display_def Let_def case_prod_beta split: option.splits)

lemma main_app_generate_session:
  assumes "clicked inp = Some GenerateContentButton"
    and "video_id \<noteq> []"
    and "fst (fetch_transcript env video_id (str ''en'')) = Some transcript"
    and "transcript \<noteq> []"
  shows "session_state (main_app_generate env inp (Some video_id) r)
         = (session_state r)
            \<lparr>generated_content :=
               Some (fst (generate_content env (kind_label (content_type_input inp)) transcript
                       (if content_type_input inp = Summary
                        then Some (desired_word_count_input inp) else None))),
             translated_content := Some None,
             pdf_generated := Some False\<rparr>"
  using assms
  by (cases "content_type_input inp")
     (simp_all add: main_app_generate_def Let_def case_prod_beta str_def)

lemma main_app_session:
  "fst (main_app_link inp r) = Inr video_id \<Longrightarrow>
   session_state (snd (main_app env inp r))
   = session_state (snd (main_app_display env inp
       (main_app_generate env inp video_id (main_app_defaults inp (snd (main_app_link inp r))))))"
  by (simp add: main_app_def Let_def case_prod_beta split: sum.splits outcome.splits)

text \<open>
  C6. In the user session, whatever the session state held before: a run in which
  \<open>Generate Content\<close> is clicked (a video identifier was parsed and its transcript is
  non-empty) ends with \<open>translated_content\<close> set to None and \<open>pdf_generated\<close> set to False,
  and with \<open>generated_content\<close> holding what \<open>generate_content\<close> returned. This holds for
  every such run, so for every one whose generation succeeds.
\<close>

theorem generation_invalidates:
  assumes "logged_in (session_state r) = Some True"
    and "clicked inp = Some GenerateContentButton"
    and "fst (main_app_link inp (script_start r)) = Inr (Some video_id)"
    and "video_id \<noteq> []"
    and "fst (fetch_transcript env video_id (str ''en'')) = Some transcript"
    and "transcript \<noteq> []"
  shows "translated_content (session_state (snd (script env inp r))) = Some None
         \<and> pdf_generated (session_state (snd (script env inp r))) = Some False
         \<and> generated_content (session_state (snd (script env inp r)))
           = Some (fst (generate_content env (kind_label (content_type_input inp)) transcript
                     (if content_type_input inp = Summary
                      then Some (desired_word_count_input inp) else None)))"
proof -
  have logged: "logged_in (session_state (script_start r)) = Some True"
    using assms(1) by (simp add: script_start_flags)
  then have run: "script env inp r = main_app env inp (script_start r)"
    by (simp add: script_def Let_def)
  have nt: "clicked inp \<noteq> Some TranslateContentButton"
    using assms(2) by simp
  show ?thesis
    by (simp add: run main_app_session[OF assms(3)] main_app_display_session[OF nt]
        main_app_generate_session[OF assms(2) assms(4) assms(5) assms(6)])
qed

text \<open>The theorem for a session that holds a translation and has the export flag set.\<close>

theorem generation_invalidates_witness:
  "logged_in (session_state user_run) = Some True
   \<and> clicked generate_inputs = Some GenerateContentButton
   \<and> fst (main_app_link generate_inputs (script_start user_run)) = Inr (Some (str ''abc123''))
   \<and> str ''abc123'' \<noteq> []
   \<and> fst (fetch_transcript env_demo_video (str ''abc123'') (str ''en''))
     = Some (str ''hello world this is a test'')
   \<and> str ''hello world this is a test'' \<noteq> []
   \<and> translated_content (session_state user_run) = Some (Some (str ''resumen''))
   \<and> pdf_generated (session_state user_run) = Some True
   \<and> translated_content (session_state (snd (script env_demo_video generate_inputs user_run)))
     = Some None
   \<and> pdf_generated (session_state (snd (script env_demo_video generate_inputs user_run)))
     = Some False"
proof -
  have h1: "logged_in (session_state user_run) = Some True"
    by (simp add: user_run_def)
  have h2: "clicked generate_inputs = Some GenerateContentButton"
    by (simp add: generate_inputs_def)
  have h3: "fst (main_app_link generate_inputs (script_start user_run))
      = Inr (Some (str ''abc123''))"
    by (simp add: main_app_link_def Let_def generate_inputs_def extract_video_id_def
        py_split_sep_def py_index_def str_def)
  have h4: "str ''abc123'' \<noteq> []"
    by (simp add: str_def)
  have h5: "fst (fetch_transcript env_demo_video (str ''abc123'') (str ''en''))
      = Some (str ''hello world this is a test'')"
    by (simp add: fetch_transcript_def env_demo_video_def env_with_transcript_def)
  have h6: "str ''hello world this is a test'' \<noteq> []"
    by (simp add: str_def)
  have before: "translated_content (session_state user_run) = Some (Some (str ''resumen''))"
    "pdf_generated (session_state user_run) = Some True"
    by (simp_all add: user_run_def)
  note after = generation_invalidates[OF h1 h2 h3 h4 h5 h6]
  show ?thesis
    using h1 h2 h3 h4 h5 h6 before after by blast
qed


section \<open>Export failure\<close>

text \<open>
  C3. What the code does when rendering fails, whatever the content and the label:
  \<open>generate_pdf\<close> catches the exception and returns None, so the caller gets no handle;
  its only event is a \<open>print\<close> on the server's standard output, no Streamlit message.
  \<open>main_app\<close> then calls \<open>open(None, "rb")\<close>: the run ends in an uncaught TypeError right
  after the content block, before the download button and the translation section.
\<close>

theorem export_failure_escapes:
  assumes "canvas_save env = (\<lambda>ops. Inl (e, partial))"
    and "generated_content (session_state r) = Some (Some content)"
    and "content \<noteq> []"
  shows "fst (generate_pdf env content content_type r) = None
         \<and> out (snd (generate_pdf env content content_type r))
           = out r @ [Print (str ''Error generating PDF: '' @ e)]
         \<and> fst (main_app_display env inp r) = Uncaught TypeError
         \<and> out (snd (main_app_display env inp r))
           = out r @ [StMarkdown (content_block (kind_label (content_type_input inp))
                        (str ''English'') content),
                      Print (str ''Error generating PDF: '' @ e)]"
  using assms
  by (simp add: generate_pdf_def main_app_display_def Let_def split: option.splits)

theorem export_failure_escapes_witness:
  "canvas_save env_pdf_failing = (\<lambda>ops. Inl (str ''[Errno 13] Permission denied'', None))
   \<and> generated_content (session_state user_run) = Some (Some (str ''old summary''))
   \<and> str ''old summary'' \<noteq> []
   \<and> fst (generate_pdf env_pdf_failing (str ''old summary'') (str ''Summary'') user_run) = None
   \<and> out (snd (generate_pdf env_pdf_failing (str ''old summary'') (str ''Summary'') user_run))
     = out user_run
       @ [Print (str ''Error generating PDF: '' @ str ''[Errno 13] Permission denied'')]
   \<and> fst (main_app_display env_pdf_failing demo_inputs user_run) = Uncaught TypeError
   \<and> out (snd (main_app_display env_pdf_failing demo_inputs user_run))
     = out user_run
       @ [StMarkdown (content_block (kind_label (content_type_input demo_inputs))
            (str ''English'') (str ''old summary'')),
          Print (str ''Error generating PDF: '' @ str ''[Errno 13] Permission denied'')]"
proof -
  have h1: "canvas_save env_pdf_failing
      = (\<lambda>ops. Inl (str ''[Errno 13] Permission denied'', None))"
    by (simp add: env_pdf_failing_def)
  have h2: "generated_content (session_state user_run) = Some (Some (str ''old summary''))"
    by (simp add: user_run_def)
  have h3: "str ''old summary'' \<noteq> []"
    by (simp add: str_def)
  show ?thesis
    by (rule conjI[OF h1 conjI[OF h2 conjI[OF h3
          export_failure_escapes[OF h1 h2 h3, where inp = demo_inputs
            and content_type = "str ''Summary''"]]]])
qed

end
